theory Spec2Isabelle
  imports
    Main
    "HOL-Library.Char_ord"
    "HOL-Library.List_Lexorder"
    "HOL-Library.Product_Lexorder"
    "HOL-Library.Multiset"
begin

section \<open>Values bound to the statements\<close>

text \<open>
  The program, \<^verbatim>\<open>app.py\<close>, keeps participants, activities and attendance
  records in three tables of a local SQLite file and works on them with fixed SQL
  statements. This theory embeds the statements, the reporting aggregator and the
  attendance screen as functions on an explicit store.

  Text is a list of bytes (the UTF-8 encoding that the store keeps), ordered as the
  store's default collation orders it: byte by byte, a proper prefix first. The
  \<^verbatim>\<open>INTEGER\<close> columns hold signed 64-bit integers, and the arguments of
  the functions are Python integers, modelled by \<open>int\<close>: when a statement is
  executed with an integer outside the 64-bit range, the database module raises
  \<^verbatim>\<open>OverflowError\<close> (\<^verbatim>\<open>Python int too large to convert to SQLite INTEGER\<close>)
  and the statement is not run. The failures of the storage itself (an unreachable
  file, a table that has used up its rowids) are not part of the model.
\<close>

text \<open>
  The errors that the embedded code can raise: \<^verbatim>\<open>OverflowError\<close> when an
  integer is bound, \<^verbatim>\<open>ValueError\<close> in the date conversion of the aggregator
  and in \<^verbatim>\<open>int\<close>, and \<^verbatim>\<open>IndexError\<close> and
  \<^verbatim>\<open>AttributeError\<close> in the expressions of the attendance screen.
\<close>

datatype error = OverflowError | ValueError | IndexError | AttributeError

definition int64 :: "int \<Rightarrow> bool" where
  "int64 i = (- (2 ^ 63) \<le> i \<and> i < 2 ^ 63)"

text \<open>
  \<^verbatim>\<open>date.today()\<close> and the value of a date widget are \<^verbatim>\<open>datetime.date\<close>
  objects: a year from 1 to 9999, a month and a day of that month. When such an object
  is bound to a statement, the date adapter of the database module stores its
  \<^verbatim>\<open>isoformat()\<close>, the text \<^verbatim>\<open>YYYY-MM-DD\<close> (\<^verbatim>\<open>%04d-%02d-%02d\<close>).
\<close>

record date =
  year :: nat
  month :: nat
  day :: nat

definition is_leap :: "nat \<Rightarrow> bool" where
  "is_leap y = (y mod 4 = 0 \<and> (y mod 100 \<noteq> 0 \<or> y mod 400 = 0))"

definition days_in_month :: "nat \<Rightarrow> nat \<Rightarrow> nat" where
  "days_in_month y m =
     (if m = 2 then (if is_leap y then 29 else 28)
      else if m = 4 \<or> m = 6 \<or> m = 9 \<or> m = 11 then 30
      else 31)"

definition valid_date :: "date \<Rightarrow> bool" where
  "valid_date d =
     (1 \<le> year d \<and> year d \<le> 9999 \<and> 1 \<le> month d \<and> month d \<le> 12 \<and>
      1 \<le> day d \<and> day d \<le> days_in_month (year d) (month d))"

definition date_key :: "date \<Rightarrow> nat \<times> nat \<times> nat" where
  "date_key d = (year d, month d, day d)"

definition digit_char :: "nat \<Rightarrow> char" where
  "digit_char n = char_of (48 + n)"

function str_nat :: "nat \<Rightarrow> string" where
  "str_nat n = (if n < 10 then [digit_char n] else str_nat (n div 10) @ [digit_char (n mod 10)])"
  by pat_completeness auto
termination
  by (relation "measure (\<lambda>n. n)") auto

declare str_nat.simps [simp del]

definition zfill :: "nat \<Rightarrow> string \<Rightarrow> string" where
  "zfill w s = replicate (w - length s) CHR ''0'' @ s"

definition isoformat :: "date \<Rightarrow> string" where
  "isoformat d =
     zfill 4 (str_nat (year d)) @ ''-'' @ zfill 2 (str_nat (month d)) @ ''-'' @
     zfill 2 (str_nat (day d))"

text \<open>The \<open>w\<close> low decimal digits of a number, used to reason about \<open>zfill\<close>.\<close>

fun digits :: "nat \<Rightarrow> nat \<Rightarrow> string" where
  "digits 0 n = []"
| "digits (Suc w) n = digits w (n div 10) @ [digit_char (n mod 10)]"

section \<open>The tables\<close>

text \<open>
  \<^verbatim>\<open>create_tables\<close> declares three tables whose \<^verbatim>\<open>id\<close> is
  \<^verbatim>\<open>INTEGER PRIMARY KEY AUTOINCREMENT\<close>:
  \<^verbatim>\<open>participantes (id, nome TEXT, idade INTEGER, genero TEXT, escolaridade TEXT, data_inscricao TEXT)\<close>,
  \<^verbatim>\<open>atividades (id, atividade TEXT, descricao TEXT, data_atividade TEXT)\<close> and
  \<^verbatim>\<open>frequencia (id, participante_id INTEGER, atividade_id INTEGER, presenca INTEGER, data_frequencia TEXT)\<close>.
  The two \<^verbatim>\<open>FOREIGN KEY\<close> clauses of \<^verbatim>\<open>frequencia\<close> are declared, but
  the connection never turns their enforcement on, so no statement checks them. A table
  is the list of its rows in rowid order, which is the order in which a scan without
  \<^verbatim>\<open>ORDER BY\<close> visits them.
\<close>

record participante_row =
  p_id :: int
  nome :: string
  idade :: int
  genero :: string
  escolaridade :: string
  data_inscricao :: string

record atividade_row =
  a_id :: int
  atividade :: string
  descricao :: string
  data_atividade :: string

record frequencia_row =
  f_id :: int
  participante_id :: int
  atividade_id :: int
  presenca :: int
  data_frequencia :: string

text \<open>
  The store: the three tables and, for each, the largest rowid it has ever held
  (the table \<^verbatim>\<open>sqlite_sequence\<close> that \<^verbatim>\<open>AUTOINCREMENT\<close> maintains).
\<close>

record db =
  participantes :: "participante_row list"
  atividades :: "atividade_row list"
  frequencia :: "frequencia_row list"
  seq_participantes :: int
  seq_atividades :: int
  seq_frequencia :: int

definition empty_db :: db where
  "empty_db =
     \<lparr>participantes = [], atividades = [], frequencia = [],
      seq_participantes = 0, seq_atividades = 0, seq_frequencia = 0\<rparr>"

text \<open>
  \<^verbatim>\<open>CREATE TABLE IF NOT EXISTS\<close>: a new file gets the three empty tables, an
  existing store is left as it is.
\<close>

definition create_tables :: "db option \<Rightarrow> db" where
  "create_tables file = (case file of None \<Rightarrow> empty_db | Some d \<Rightarrow> d)"

text \<open>
  The rowid of an inserted row is one more than the largest rowid that the table
  holds or has ever held.
\<close>

definition next_rowid :: "int list \<Rightarrow> int \<Rightarrow> int" where
  "next_rowid ids s = max (fold max ids 0) s + 1"

text \<open>
  The primary keys: in each table the rowids increase strictly along the scan, so
  no two rows share one.
\<close>

definition wf_db :: "db \<Rightarrow> bool" where
  "wf_db d =
     (sorted_wrt (<) (map p_id (participantes d)) \<and>
      sorted_wrt (<) (map a_id (atividades d)) \<and>
      sorted_wrt (<) (map f_id (frequencia d)))"

section \<open>The persistence layer\<close>

text \<open>
  \<^verbatim>\<open>INSERT INTO participantes (nome, idade, genero, escolaridade, data_inscricao) VALUES (?, ?, ?, ?, ?)\<close>
  with the four arguments and \<^verbatim>\<open>date.today()\<close>; the activities and the
  attendance likewise. The arguments have the types that the docstrings give them:
  text for names, integers for the age, the ids and the presence flag (1 present,
  0 absent), and a date text for the attendance date. \<open>insert_participante\<close> and
  \<open>insert_frequencia\<close> are the two statements with their parameters bound;
  \<^verbatim>\<open>add_participante\<close> and \<^verbatim>\<open>registrar_frequencia\<close> bind the
  integers first, which raises for an integer outside the 64-bit range and then leaves
  the store untouched.
\<close>

definition insert_participante :: "date \<Rightarrow> string \<Rightarrow> int \<Rightarrow> string \<Rightarrow> string \<Rightarrow> db \<Rightarrow> db" where
  "insert_participante today n i g e d =
     (let k = next_rowid (map p_id (participantes d)) (seq_participantes d)
      in d\<lparr>participantes := participantes d @
             [\<lparr>p_id = k, nome = n, idade = i, genero = g, escolaridade = e,
               data_inscricao = isoformat today\<rparr>],
           seq_participantes := k\<rparr>)"

definition add_participante ::
  "date \<Rightarrow> string \<Rightarrow> int \<Rightarrow> string \<Rightarrow> string \<Rightarrow> db \<Rightarrow> error + db" where
  "add_participante today n i g e d =
     (if int64 i then Inr (insert_participante today n i g e d) else Inl OverflowError)"

definition add_atividade :: "date \<Rightarrow> string \<Rightarrow> string \<Rightarrow> db \<Rightarrow> db" where
  "add_atividade today n e d =
     (let k = next_rowid (map a_id (atividades d)) (seq_atividades d)
      in d\<lparr>atividades := atividades d @
             [\<lparr>a_id = k, atividade = n, descricao = e, data_atividade = isoformat today\<rparr>],
           seq_atividades := k\<rparr>)"

definition insert_frequencia :: "int \<Rightarrow> int \<Rightarrow> int \<Rightarrow> string \<Rightarrow> db \<Rightarrow> db" where
  "insert_frequencia p a pr dt d =
     (let k = next_rowid (map f_id (frequencia d)) (seq_frequencia d)
      in d\<lparr>frequencia := frequencia d @
             [\<lparr>f_id = k, participante_id = p, atividade_id = a, presenca = pr,
               data_frequencia = dt\<rparr>],
           seq_frequencia := k\<rparr>)"

definition registrar_frequencia :: "int \<Rightarrow> int \<Rightarrow> int \<Rightarrow> string \<Rightarrow> db \<Rightarrow> error + db" where
  "registrar_frequencia p a pr dt d =
     (if int64 p \<and> int64 a \<and> int64 pr then Inr (insert_frequencia p a pr dt d)
      else Inl OverflowError)"


definition visualizar_atividades :: "db \<Rightarrow> (int \<times> string \<times> string \<times> string) list" where
  "visualizar_atividades d =
     map (\<lambda>a. (a_id a, atividade a, descricao a, data_atividade a)) (atividades d)"

definition get_participantes_dropdown :: "db \<Rightarrow> (int \<times> string \<times> int) list" where
  "get_participantes_dropdown d = map (\<lambda>p. (p_id p, nome p, idade p)) (participantes d)"

definition get_atividades_dropdown :: "db \<Rightarrow> (int \<times> string) list" where
  "get_atividades_dropdown d = map (\<lambda>a. (a_id a, atividade a)) (atividades d)"

text \<open>
  \<^verbatim>\<open>SELECT f.id, p.nome, a.atividade, f.presenca, f.data_frequencia FROM frequencia f JOIN participantes p ON f.participante_id = p.id JOIN atividades a ON f.atividade_id = a.id ORDER BY f.data_frequencia\<close>.
  The joins are inner joins: an attendance row is paired with the participant and the
  activity whose ids it names. The rows are then sorted by the stored date text; the
  sort keeps rows of equal date in the order of the scan (the statement leaves their
  order open).
\<close>

definition frequencia_join ::
  "db \<Rightarrow> (frequencia_row \<times> participante_row \<times> atividade_row) list" where
  "frequencia_join d =
     [(f, p, a). f \<leftarrow> frequencia d,
                 p \<leftarrow> participantes d, participante_id f = p_id p,
                 a \<leftarrow> atividades d, atividade_id f = a_id a]"

definition visualizar_frequencia :: "db \<Rightarrow> (int \<times> string \<times> string \<times> int \<times> string) list" where
  "visualizar_frequencia d =
     sort_key (\<lambda>(_, _, _, _, dt). dt)
       (map (\<lambda>(f, p, a). (f_id f, nome p, atividade a, presenca f, data_frequencia f))
          (frequencia_join d))"

text \<open>
  \<^verbatim>\<open>DELETE FROM frequencia WHERE participante_id = ?\<close>, then
  \<^verbatim>\<open>DELETE FROM participantes WHERE id = ?\<close>; the same for an activity; and
  \<^verbatim>\<open>DELETE FROM frequencia WHERE id = ?\<close>. A delete leaves
  \<^verbatim>\<open>sqlite_sequence\<close> alone. The three functions are the statements with
  the id bound: the results below apply them to the id of a stored row, and the ids
  that the statements store are within the 64-bit range.
\<close>

definition excluir_participante :: "int \<Rightarrow> db \<Rightarrow> db" where
  "excluir_participante k d =
     (let d1 = d\<lparr>frequencia := filter (\<lambda>f. participante_id f \<noteq> k) (frequencia d)\<rparr>
      in d1\<lparr>participantes := filter (\<lambda>p. p_id p \<noteq> k) (participantes d1)\<rparr>)"

definition excluir_atividade :: "int \<Rightarrow> db \<Rightarrow> db" where
  "excluir_atividade k d =
     (let d1 = d\<lparr>frequencia := filter (\<lambda>f. atividade_id f \<noteq> k) (frequencia d)\<rparr>
      in d1\<lparr>atividades := filter (\<lambda>a. a_id a \<noteq> k) (atividades d1)\<rparr>)"

definition excluir_frequencia :: "int \<Rightarrow> db \<Rightarrow> db" where
  "excluir_frequencia k d = d\<lparr>frequencia := filter (\<lambda>f. f_id f \<noteq> k) (frequencia d)\<rparr>"

section \<open>The reporting aggregator\<close>

text \<open>
  \<^verbatim>\<open>SELECT a.atividade, f.data_frequencia, COUNT(f.presenca) AS num_presentes FROM frequencia f JOIN atividades a ON f.atividade_id = a.id WHERE f.presenca = 1 GROUP BY a.atividade, f.data_frequencia ORDER BY f.data_frequencia\<close>.
  The statement joins the attendance rows with the activities only, keeps the rows
  whose \<^verbatim>\<open>presenca\<close> is 1, groups them by activity name and date text, counts
  each group (every row of a group has a \<^verbatim>\<open>presenca\<close>, so the count is the size
  of the group) and orders the groups by date. Groups of equal date are listed by
  activity name (the statement leaves their order open).
\<close>

definition presenca_join :: "db \<Rightarrow> (frequencia_row \<times> atividade_row) list" where
  "presenca_join d =
     [(f, a). f \<leftarrow> frequencia d, a \<leftarrow> atividades d, atividade_id f = a_id a,
              presenca f = 1]"

definition presenca_keys :: "db \<Rightarrow> (string \<times> string) list" where
  "presenca_keys d = map (\<lambda>(f, a). (atividade a, data_frequencia f)) (presenca_join d)"

definition obter_dados_query :: "db \<Rightarrow> (string \<times> string \<times> int) list" where
  "obter_dados_query d =
     (let ks = presenca_keys d
      in map (\<lambda>(n, dt). (n, dt, int (count_list ks (n, dt))))
           (sort_key (\<lambda>(n, dt). (dt, n)) (remdups ks)))"

text \<open>
  The rows then fill a data frame, and
  \<^verbatim>\<open>df['Data'] = pd.to_datetime(df['Data']).dt.date\<close> replaces its date column
  by the converted column. The conversion belongs to the data-frame library and takes
  the column as a whole: it is the parameter \<open>to_datetime\<close>, which is given the
  texts of the column in order and either raises (\<open>None\<close>) or returns the
  converted column, by position; a position holds a date or no date (the library's
  \<^verbatim>\<open>NaT\<close>). Of an empty column nothing is converted and nothing is raised.
\<close>

definition pd_to_datetime ::
  "(string list \<Rightarrow> (nat \<Rightarrow> date option) option) \<Rightarrow> string list \<Rightarrow>
     (nat \<Rightarrow> date option) option" where
  "pd_to_datetime to_datetime texts =
     (if texts = [] then Some (\<lambda>i. None) else to_datetime texts)"

definition obter_dados_participantes_por_atividade ::
  "(string list \<Rightarrow> (nat \<Rightarrow> date option) option) \<Rightarrow> db \<Rightarrow>
     error + (string \<times> date option \<times> int) list" where
  "obter_dados_participantes_por_atividade to_datetime d =
     (let data = obter_dados_query d
      in case pd_to_datetime to_datetime (map (\<lambda>(n, dt, c). dt) data) of
           None \<Rightarrow> Inl ValueError
         | Some col \<Rightarrow> Inr (map (\<lambda>(i, n, dt, c). (n, col i, c)) (enumerate 0 data)))"

section \<open>The attendance screen\<close>

text \<open>
  The screen builds the options of its two select boxes from the rows in the store and
  reads the chosen id back from the chosen label with
  \<^verbatim>\<open>int(s.split(',')[0].split(':')[1].strip())\<close>. The functions below are the
  string operations of that expression on byte strings: \<^verbatim>\<open>str\<close> of an integer,
  \<^verbatim>\<open>split\<close> at a one-character separator, indexing (which raises
  \<^verbatim>\<open>IndexError\<close> out of range), \<^verbatim>\<open>strip\<close> of ASCII white space, and
  \<^verbatim>\<open>int\<close> of a decimal literal (white space around it, an optional sign, digits
  with single underscores between them; \<^verbatim>\<open>ValueError\<close> otherwise).
\<close>

definition str_int :: "int \<Rightarrow> string" where
  "str_int i = (if i < 0 then CHR ''-'' # str_nat (nat (- i)) else str_nat (nat i))"

fun py_split :: "char \<Rightarrow> string \<Rightarrow> string list" where
  "py_split sep [] = [[]]"
| "py_split sep (c # cs) =
     (if c = sep then [] # py_split sep cs
      else (case py_split sep cs of
              [] \<Rightarrow> [[c]]
            | w # ws \<Rightarrow> (c # w) # ws))"

definition py_index :: "'a list \<Rightarrow> nat \<Rightarrow> error + 'a" where
  "py_index xs i = (if i < length xs then Inr (xs ! i) else Inl IndexError)"

definition is_space :: "char \<Rightarrow> bool" where
  "is_space c = (let n = (of_char c :: nat) in (9 \<le> n \<and> n \<le> 13) \<or> (28 \<le> n \<and> n \<le> 32))"

definition py_strip :: "string \<Rightarrow> string" where
  "py_strip s = rev (dropWhile is_space (rev (dropWhile is_space s)))"

definition is_digit :: "char \<Rightarrow> bool" where
  "is_digit c = (48 \<le> (of_char c :: nat) \<and> (of_char c :: nat) \<le> 57)"

definition digit_val :: "char \<Rightarrow> nat" where
  "digit_val c = of_char c - 48"

fun py_digits :: "nat \<Rightarrow> bool \<Rightarrow> string \<Rightarrow> nat option" where
  "py_digits acc after_digit [] = (if after_digit then Some acc else None)"
| "py_digits acc after_digit (c # cs) =
     (if is_digit c then py_digits (10 * acc + digit_val c) True cs
      else if c = CHR ''_'' \<and> after_digit then py_digits acc False cs
      else None)"

definition py_int :: "string \<Rightarrow> error + int" where
  "py_int s =
     (case py_strip s of
        [] \<Rightarrow> Inl ValueError
      | c # cs \<Rightarrow>
          if c = CHR ''-'' then
            (case py_digits 0 False cs of None \<Rightarrow> Inl ValueError | Some n \<Rightarrow> Inr (- int n))
          else if c = CHR ''+'' then
            (case py_digits 0 False cs of None \<Rightarrow> Inl ValueError | Some n \<Rightarrow> Inr (int n))
          else
            (case py_digits 0 False (c # cs) of None \<Rightarrow> Inl ValueError | Some n \<Rightarrow> Inr (int n)))"

definition id_of_selection :: "string \<Rightarrow> error + int" where
  "id_of_selection s =
     (case py_index (py_split CHR '','' s) 0 of
        Inl e \<Rightarrow> Inl e
      | Inr a \<Rightarrow>
          (case py_index (py_split CHR '':'' a) 1 of
             Inl e \<Rightarrow> Inl e
           | Inr b \<Rightarrow> py_int (py_strip b)))"

text \<open>
  The widgets are the external collaborator. What the operator has set in them is the
  input of a run of the screen: the positions chosen in the three select boxes, the date
  of the date input, and whether the button \<^verbatim>\<open>Registrar\<close> was pressed. A select
  box returns one of its options (the first one when nothing valid is chosen) and
  \<^verbatim>\<open>None\<close> when it has no options. A run returns the store and the list of
  what it showed and called, in order; \<open>Call_registrar_frequencia\<close> marks a call of
  \<^verbatim>\<open>registrar_frequencia\<close> with its arguments. The date of the widget is bound
  as its ISO text.
\<close>

datatype st_event =
    St_subheader string
  | St_warning string
  | St_selectbox string "string list"
  | St_date_input string
  | St_button string
  | St_success string
  | St_error string
  | Call_registrar_frequencia int int int string

record widgets =
  w_participante :: nat
  w_atividade :: nat
  w_presenca :: nat
  w_data :: date
  w_registrar :: bool

definition selectbox :: "string list \<Rightarrow> nat \<Rightarrow> string option" where
  "selectbox options i =
     (if options = [] then None
      else if i < length options then Some (options ! i)
      else Some (options ! 0))"

definition label_participante :: "int \<times> string \<times> int \<Rightarrow> string" where
  "label_participante p =
     (case p of (i, n, a) \<Rightarrow> ''ID: '' @ str_int i @ '', Nome: '' @ n @ '', Idade: '' @ str_int a)"

definition label_atividade :: "int \<times> string \<Rightarrow> string" where
  "label_atividade a = (case a of (i, n) \<Rightarrow> ''ID: '' @ str_int i @ '', Atividade: '' @ n)"

definition msg_sucesso :: string where
  "msg_sucesso = ''Frequ'' @ [CHR 0xC3, CHR 0xAA] @ ''ncia registrada com sucesso!''"

definition msg_erro :: string where
  "msg_erro =
     ''N'' @ [CHR 0xC3, CHR 0xA3] @ ''o foi poss'' @ [CHR 0xC3, CHR 0xAD] @
     ''vel registrar a frequ'' @ [CHR 0xC3, CHR 0xAA] @ ''ncia. Verifique se h'' @
     [CHR 0xC3, CHR 0xA1] @ '' participantes e atividades cadastrados.''"

definition titulo_registro :: string where
  "titulo_registro = ''Registro de Frequ'' @ [CHR 0xC3, CHR 0xAA] @ ''ncia''"

definition label_presenca :: string where
  "label_presenca = ''Presen'' @ [CHR 0xC3, CHR 0xA7] @ ''a''"

definition label_data :: string where
  "label_data = ''Data da Frequ'' @ [CHR 0xC3, CHR 0xAA] @ ''ncia''"

text \<open>
  The two branches \<^verbatim>\<open>if participantes: ... else: ...\<close> and
  \<^verbatim>\<open>if atividades: ... else: ...\<close>: a select box and the id read from its value,
  or a warning and \<^verbatim>\<open>None\<close>.
\<close>

definition selecionar_participante ::
  "nat \<Rightarrow> (int \<times> string \<times> int) list \<Rightarrow> error + (int option \<times> st_event list)" where
  "selecionar_participante i ps =
     (if ps \<noteq> [] then
        (let options = map label_participante ps
         in case selectbox options i of
              None \<Rightarrow> Inl AttributeError
            | Some s \<Rightarrow>
                (case id_of_selection s of
                   Inl e \<Rightarrow> Inl e
                 | Inr k \<Rightarrow> Inr (Some k, [St_selectbox ''Selecione o Participante'' options])))
      else Inr (None, [St_warning ''Nenhum participante cadastrado!'']))"

definition selecionar_atividade ::
  "nat \<Rightarrow> (int \<times> string) list \<Rightarrow> error + (int option \<times> st_event list)" where
  "selecionar_atividade i as =
     (if as \<noteq> [] then
        (let options = map label_atividade as
         in case selectbox options i of
              None \<Rightarrow> Inl AttributeError
            | Some s \<Rightarrow>
                (case id_of_selection s of
                   Inl e \<Rightarrow> Inl e
                 | Inr k \<Rightarrow> Inr (Some k, [St_selectbox ''Selecione a Atividade'' options])))
      else Inr (None, [St_warning ''Nenhuma atividade cadastrada!'']))"

text \<open>
  The attendance branch of the menu. The call of the persistence
  layer is guarded by
  \<^verbatim>\<open>if participante_id is not None and atividade_id is not None\<close>; its other
  branch shows the error message.
\<close>

definition tela_registrar_frequencia :: "widgets \<Rightarrow> db \<Rightarrow> error + (db \<times> st_event list)" where
  "tela_registrar_frequencia w d =
     (case selecionar_participante (w_participante w) (get_participantes_dropdown d) of
        Inl e \<Rightarrow> Inl e
      | Inr (pid, ev1) \<Rightarrow>
     (case selecionar_atividade (w_atividade w) (get_atividades_dropdown d) of
        Inl e \<Rightarrow> Inl e
      | Inr (aid, ev2) \<Rightarrow>
          (let presenca_texto = selectbox [''Presente'', ''Ausente''] (w_presenca w);
               pr = (if presenca_texto = Some ''Presente'' then 1 else 0);
               data_frequencia = w_data w;
               evs = St_subheader titulo_registro # ev1 @ ev2 @
                 [St_selectbox label_presenca [''Presente'', ''Ausente''],
                  St_date_input label_data, St_button ''Registrar'']
           in if w_registrar w then
                (case (pid, aid) of
                   (Some p, Some a) \<Rightarrow>
                     (case registrar_frequencia p a pr (isoformat data_frequencia) d of
                        Inl e \<Rightarrow> Inl e
                      | Inr d' \<Rightarrow>
                          Inr (d',
                            evs @ [Call_registrar_frequencia p a pr (isoformat data_frequencia),
                                   St_success msg_sucesso]))
                 | _ \<Rightarrow> Inr (d, evs @ [St_error msg_erro]))
              else Inr (d, evs))))"

fun is_call :: "st_event \<Rightarrow> bool" where
  "is_call (Call_registrar_frequencia p a pr dt) = True"
| "is_call _ = False"

section \<open>The stores that the program produces\<close>

text \<open>
  Every store of a run comes from a new file by the statements of the persistence layer,
  whoever calls them and with whatever arguments.
\<close>

inductive reachable :: "db \<Rightarrow> bool" where
  created: "reachable (create_tables None)"
| participante_added:
    "reachable d \<Longrightarrow> add_participante today n i g e d = Inr d' \<Longrightarrow> reachable d'"
| atividade_added: "reachable d \<Longrightarrow> reachable (add_atividade today n e d)"
| frequencia_registered:
    "reachable d \<Longrightarrow> registrar_frequencia p a pr dt d = Inr d' \<Longrightarrow> reachable d'"
| participante_deleted: "reachable d \<Longrightarrow> reachable (excluir_participante k d)"
| atividade_deleted: "reachable d \<Longrightarrow> reachable (excluir_atividade k d)"
| frequencia_deleted: "reachable d \<Longrightarrow> reachable (excluir_frequencia k d)"

section \<open>Reading a count off a table\<close>


section \<open>Stores for the examples\<close>

text \<open>
  The store after registering the participant Ana on the day \<open>t1\<close>, the activity
  Futebol on the day \<open>t2\<close>, and one attendance of Ana at Futebol. The education
  level is the UTF-8 text of \<^verbatim>\<open>5\<close>, the ordinal sign and \<^verbatim>\<open> ano\<close>.
\<close>

definition quinto_ano :: string where
  "quinto_ano = ''5'' @ [CHR 0xC2, CHR 0xBA] @ '' ano''"

definition cenario :: "date \<Rightarrow> date \<Rightarrow> db" where
  "cenario t1 t2 =
     insert_frequencia 1 1 1 ''2024-03-01''
       (add_atividade t2 ''Futebol'' ''Treino semanal''
          (insert_participante t1 ''Ana'' 10 ''Feminino'' quinto_ano (create_tables None)))"

text \<open>
  The calls of the program that produce this store; each of the two that bind integers
  may raise.
\<close>

definition cenario_run :: "date \<Rightarrow> date \<Rightarrow> error + db" where
  "cenario_run t1 t2 =
     (case add_participante t1 ''Ana'' 10 ''Feminino'' quinto_ano (create_tables None) of
        Inl e \<Rightarrow> Inl e
      | Inr d1 \<Rightarrow>
          registrar_frequencia 1 1 1 ''2024-03-01''
            (add_atividade t2 ''Futebol'' ''Treino semanal'' d1))"

definition dia :: date where
  "dia = \<lparr>year = 2024, month = 2, day = 28\<rparr>"

text \<open>
  The same store after a second participant, Bia, has been registered and recorded as
  absent from Futebol.
\<close>

definition cenario_dois :: db where
  "cenario_dois =
     insert_frequencia 2 1 0 ''2024-03-01''
       (insert_participante dia ''Bia'' 11 ''Feminino'' ''6 ano'' (cenario dia dia))"

text \<open>A store with one participant and no activity, and a run of the screen.\<close>

definition so_ana :: db where
  "so_ana = insert_participante dia ''Ana'' 10 ''Feminino'' quinto_ano (create_tables None)"

definition w_exemplo :: widgets where
  "w_exemplo =
     \<lparr>w_participante = 0, w_atividade = 0, w_presenca = 0,
      w_data = \<lparr>year = 2024, month = 3, day = 1\<rparr>, w_registrar = True\<rparr>"

text \<open>
  A conversion for the examples, with the two formats that they use. As the library
  does, it takes the format of the column from its first text, the ISO format
  \<^verbatim>\<open>YYYY-MM-DD\<close> or else \<^verbatim>\<open>MM/DD/YYYY\<close>, reads every text of the
  column in that format, and raises when a text is not in that format.
\<close>

definition dec :: "string \<Rightarrow> nat" where
  "dec s = foldl (\<lambda>a c. 10 * a + digit_val c) 0 s"

definition parse_iso :: "string \<Rightarrow> date option" where
  "parse_iso s =
     (if length s = 10 \<and> s ! 4 = CHR ''-'' \<and> s ! 7 = CHR ''-'' \<and>
         list_all is_digit (take 4 s) \<and> list_all is_digit (take 2 (drop 5 s)) \<and>
         list_all is_digit (drop 8 s)
      then (let d = \<lparr>year = dec (take 4 s), month = dec (take 2 (drop 5 s)),
                      day = dec (drop 8 s)\<rparr>
            in if valid_date d then Some d else None)
      else None)"

definition parse_mdy :: "string \<Rightarrow> date option" where
  "parse_mdy s =
     (if length s = 10 \<and> s ! 2 = CHR ''/'' \<and> s ! 5 = CHR ''/'' \<and>
         list_all is_digit (take 2 s) \<and> list_all is_digit (take 2 (drop 3 s)) \<and>
         list_all is_digit (drop 6 s)
      then (let d = \<lparr>year = dec (drop 6 s), month = dec (take 2 s),
                      day = dec (take 2 (drop 3 s))\<rparr>
            in if valid_date d then Some d else None)
      else None)"

definition exemplo_to_datetime :: "string list \<Rightarrow> (nat \<Rightarrow> date option) option" where
  "exemplo_to_datetime texts =
     (case texts of
        [] \<Rightarrow> Some (\<lambda>i. None)
      | s # rest \<Rightarrow>
          (let read = (if parse_iso s \<noteq> None then parse_iso else parse_mdy)
           in if list_all (\<lambda>s. read s \<noteq> None) texts
              then Some (\<lambda>i. if i < length texts then read (texts ! i) else None)
              else None))"

section \<open>ISO texts are ordered as their dates\<close>

lemma length_digits: "length (digits w n) = w"
  by (induction w arbitrary: n) auto

lemma digits_zero: "digits w 0 = replicate w CHR ''0''"
proof (induction w)
  case 0
  show ?case by simp
next
  case (Suc w)
  have "digit_char 0 = CHR ''0''" by code_simp
  with Suc show ?case by (simp add: replicate_append_same)
qed

lemma length_str_nat: "n < 10 ^ w \<Longrightarrow> 0 < w \<Longrightarrow> length (str_nat n) \<le> w"
proof (induction w arbitrary: n)
  case 0
  then show ?case by simp
next
  case (Suc w)
  show ?case
  proof (cases "n < 10")
    case True
    then show ?thesis by (subst str_nat.simps) simp
  next
    case False
    with Suc.prems have small: "n div 10 < 10 ^ w" by simp
    with False have "0 < w" by (cases w) auto
    with small have "length (str_nat (n div 10)) \<le> w" by (rule Suc.IH)
    with False show ?thesis by (subst str_nat.simps) simp
  qed
qed

lemma zfill_digits: "n < 10 ^ w \<Longrightarrow> 0 < w \<Longrightarrow> zfill w (str_nat n) = digits w n"
proof (induction w arbitrary: n)
  case 0
  then show ?case by simp
next
  case (Suc w)
  show ?case
  proof (cases "n < 10")
    case True
    then have "str_nat n = [digit_char n]" by (subst str_nat.simps) simp
    with True show ?thesis by (simp add: zfill_def digits_zero)
  next
    case False
    with Suc.prems have small: "n div 10 < 10 ^ w" by simp
    with False have pos: "0 < w" by (cases w) auto
    from small pos have ih: "zfill w (str_nat (n div 10)) = digits w (n div 10)"
      by (rule Suc.IH)
    from small pos have "length (str_nat (n div 10)) \<le> w" by (rule length_str_nat)
    moreover from False have "str_nat n = str_nat (n div 10) @ [digit_char (n mod 10)]"
      by (subst str_nat.simps) simp
    ultimately have "zfill (Suc w) (str_nat n) =
        zfill w (str_nat (n div 10)) @ [digit_char (n mod 10)]"
      by (simp add: zfill_def Suc_diff_le)
    with ih show ?thesis by simp
  qed
qed



lemma digit_char_eq: "x < 10 \<Longrightarrow> y < 10 \<Longrightarrow> (digit_char x = digit_char y) = (x = y)"
proof
  assume "x < 10" "y < 10" "digit_char x = digit_char y"
  then have "of_char (digit_char x) = (of_char (digit_char y) :: nat)" by simp
  with \<open>x < 10\<close> \<open>y < 10\<close> show "x = y" by (simp add: digit_char_def)
qed simp


lemma digits_eq: "a < 10 ^ w \<Longrightarrow> b < 10 ^ w \<Longrightarrow> (digits w a = digits w b) = (a = b)"
proof (induction w arbitrary: a b)
  case 0
  then show ?case by simp
next
  case (Suc w)
  then have "a div 10 < 10 ^ w" "b div 10 < 10 ^ w" by simp_all
  then have "(digits w (a div 10) = digits w (b div 10)) = (a div 10 = b div 10)"
    by (rule Suc.IH)
  moreover have "(a div 10 = b div 10 \<and> a mod 10 = b mod 10) = (a = b)"
    by (metis div_mult_mod_eq)
  ultimately show ?case by (auto simp: digit_char_eq length_digits)
qed


lemma days_in_month_le: "days_in_month y m \<le> 31"
  by (simp add: days_in_month_def)

lemma valid_date_bounds:
  assumes "valid_date d"
  shows "year d < 10 ^ 4" and "month d < 10 ^ 2" and "day d < 10 ^ 2"
proof -
  from assms show "year d < 10 ^ 4" and "month d < 10 ^ 2"
    by (simp_all add: valid_date_def)
  from assms have "day d \<le> days_in_month (year d) (month d)"
    by (simp add: valid_date_def)
  also have "\<dots> \<le> 31" by (rule days_in_month_le)
  finally show "day d < 10 ^ 2" by simp
qed

lemma isoformat_digits:
  assumes "valid_date d"
  shows "isoformat d =
    digits 4 (year d) @ CHR ''-'' # digits 2 (month d) @ CHR ''-'' # digits 2 (day d)"
  using valid_date_bounds [OF assms]
  by (simp add: isoformat_def zfill_digits)


lemma isoformat_eq:
  assumes "valid_date a" and "valid_date b"
  shows "(isoformat a = isoformat b) = (date_key a = date_key b)"
proof -
  note ba = valid_date_bounds [OF assms(1)] and bb = valid_date_bounds [OF assms(2)]
  have "(isoformat a = isoformat b) =
      (digits 4 (year a) = digits 4 (year b) \<and> digits 2 (month a) = digits 2 (month b) \<and>
       digits 2 (day a) = digits 2 (day b))"
    unfolding isoformat_digits [OF assms(1)] isoformat_digits [OF assms(2)]
    by (simp add: length_digits)
  also have "\<dots> = (year a = year b \<and> month a = month b \<and> day a = day b)"
    using ba bb by (simp add: digits_eq)
  finally show ?thesis
    by (simp add: date_key_def)
qed


lemma isoformat_inj:
  assumes "valid_date a" and "valid_date b" and "isoformat a = isoformat b"
  shows "a = (b :: date)"
  using assms(3) by (simp add: isoformat_eq [OF assms(1,2)] date_key_def)

section \<open>The primary keys are an invariant\<close>

lemma fold_max_ge_init: "(a::int) \<le> fold max xs a"
proof (induction xs arbitrary: a)
  case Nil
  show ?case by simp
next
  case (Cons x xs)
  have "a \<le> max x a" by simp
  also have "\<dots> \<le> fold max xs (max x a)" by (rule Cons.IH)
  finally show ?case by simp
qed

lemma fold_max_ge_elem: "x \<in> set xs \<Longrightarrow> (x::int) \<le> fold max xs a"
proof (induction xs arbitrary: a)
  case Nil
  then show ?case by simp
next
  case (Cons y ys)
  show ?case
  proof (cases "x = y")
    case True
    have "y \<le> max y a" by simp
    also have "\<dots> \<le> fold max ys (max y a)" by (rule fold_max_ge_init)
    finally show ?thesis using True by simp
  next
    case False
    with Cons.prems have "x \<in> set ys" by simp
    then show ?thesis using Cons.IH by simp
  qed
qed

lemma next_rowid_greater: "x \<in> set ids \<Longrightarrow> x < next_rowid ids s"
  using fold_max_ge_elem [of x ids 0] by (simp add: next_rowid_def)



lemma next_rowid_above_seq: "s < next_rowid ids s"
  by (simp add: next_rowid_def)

lemma sorted_wrt_snoc_rowid:
  "sorted_wrt (<) ids \<Longrightarrow> sorted_wrt (<) (ids @ [next_rowid ids s])"
  by (simp add: sorted_wrt_append next_rowid_greater)

lemma sorted_wrt_map_filter:
  "sorted_wrt (<) (map f xs) \<Longrightarrow> sorted_wrt (<) (map f (filter P xs))"
  by (induction xs) auto

lemma int64_flags: "int64 0" "int64 1"
  by (simp_all add: int64_def)

lemma wf_db_empty: "wf_db empty_db"
  by (simp add: wf_db_def empty_db_def)

lemma wf_db_insert_participante: "wf_db d \<Longrightarrow> wf_db (insert_participante today n i g e d)"
  by (simp add: wf_db_def insert_participante_def Let_def sorted_wrt_snoc_rowid)

lemma wf_db_add_atividade: "wf_db d \<Longrightarrow> wf_db (add_atividade today n e d)"
  by (simp add: wf_db_def add_atividade_def Let_def sorted_wrt_snoc_rowid)

lemma wf_db_insert_frequencia: "wf_db d \<Longrightarrow> wf_db (insert_frequencia p a pr dt d)"
  by (simp add: wf_db_def insert_frequencia_def Let_def sorted_wrt_snoc_rowid)

lemma wf_db_excluir_participante: "wf_db d \<Longrightarrow> wf_db (excluir_participante k d)"
  by (simp add: wf_db_def excluir_participante_def Let_def sorted_wrt_map_filter)

lemma wf_db_excluir_atividade: "wf_db d \<Longrightarrow> wf_db (excluir_atividade k d)"
  by (simp add: wf_db_def excluir_atividade_def Let_def sorted_wrt_map_filter)

lemma wf_db_excluir_frequencia: "wf_db d \<Longrightarrow> wf_db (excluir_frequencia k d)"
  by (simp add: wf_db_def excluir_frequencia_def sorted_wrt_map_filter)

lemma create_tables_idem: "create_tables (Some (create_tables file)) = create_tables file"
  by (simp add: create_tables_def)

lemma wf_db_create_tables: "wf_db (create_tables None)"
  by (simp add: create_tables_def wf_db_empty)

text \<open>So every store that the program produces has its primary keys.\<close>

lemma reachable_wf_db: "reachable d \<Longrightarrow> wf_db d"
proof (induction rule: reachable.induct)
  case created
  show ?case by (rule wf_db_create_tables)
next
  case (participante_added d today n i g e d')
  then show ?case
    by (auto simp: add_participante_def wf_db_insert_participante split: if_splits)
next
  case (atividade_added d today n e)
  then show ?case by (simp add: wf_db_add_atividade)
next
  case (frequencia_registered d p a pr dt d')
  then show ?case
    by (auto simp: registrar_frequencia_def wf_db_insert_frequencia split: if_splits)
next
  case (participante_deleted d k)
  then show ?case by (simp add: wf_db_excluir_participante)
next
  case (atividade_deleted d k)
  then show ?case by (simp add: wf_db_excluir_atividade)
next
  case (frequencia_deleted d k)
  then show ?case by (simp add: wf_db_excluir_frequencia)
qed

text \<open>With distinct keys, deleting by key removes one row and keeps the others in place.\<close>

lemma filter_neq_key_remove1:
  "distinct (map f xs) \<Longrightarrow> x \<in> set xs \<Longrightarrow> filter (\<lambda>y. f y \<noteq> f x) xs = remove1 x xs"
proof (induction xs)
  case Nil
  then show ?case by simp
next
  case (Cons y ys)
  show ?case
  proof (cases "y = x")
    case True
    from Cons.prems(1) have "f y \<notin> f ` set ys" by simp
    then have "\<forall>z\<in>set ys. f z \<noteq> f y" by (metis imageI)
    then have "filter (\<lambda>z. f z \<noteq> f y) ys = ys" by (simp add: filter_id_conv)
    with True show ?thesis by simp
  next
    case False
    with Cons.prems have "x \<in> set ys" and "f y \<noteq> f x" by auto
    with Cons.IH Cons.prems(1) False show ?thesis by simp
  qed
qed

lemma strict_sorted_distinct: "sorted_wrt (<) (xs :: int list) \<Longrightarrow> distinct xs"
  by (induction xs) auto

section \<open>Joins and groups\<close>


lemma filter_key_empty:
  "g0 \<notin> g ` set xs \<Longrightarrow> filter (\<lambda>y. g0 = g y) xs = []"
  by (induction xs) auto

lemma concat_map_if2:
  "concat (map (\<lambda>a. if P a then (if Q then [h a] else []) else []) xs) =
     (if Q then map h (filter P xs) else [])"
  by (induction xs) auto

lemma concat_map_if_filter:
  "concat (map (\<lambda>f. if Q f then g f else []) xs) = concat (map g (filter Q xs))"
  by (induction xs) auto

lemma presenca_join_alt:
  "presenca_join d =
     concat (map (\<lambda>f. map (Pair f) (filter (\<lambda>a. atividade_id f = a_id a) (atividades d)))
              (filter (\<lambda>f. presenca f = 1) (frequencia d)))"
  by (simp add: presenca_join_def concat_map_if2 concat_map_if_filter)



lemma presenca_keys_participantes: "presenca_keys (d\<lparr>participantes := ps\<rparr>) = presenca_keys d"
  by (simp add: presenca_keys_def presenca_join_def)






lemma obter_dados_frame_cong:
  "obter_dados_query d' = obter_dados_query d \<Longrightarrow>
   obter_dados_participantes_por_atividade to_datetime d' =
   obter_dados_participantes_por_atividade to_datetime d"
  by (simp add: obter_dados_participantes_por_atividade_def)


lemma obter_dados_query_cong:
  "presenca_keys d' = presenca_keys d \<Longrightarrow> obter_dados_query d' = obter_dados_query d"
  by (simp add: obter_dados_query_def)

lemma concat_map_remove1_empty:
  "J x = [] \<Longrightarrow> concat (map J (remove1 x xs)) = concat (map J xs)"
  by (induction xs) auto

lemma frequencia_join_alt:
  "frequencia_join d =
     concat (map (\<lambda>f. concat (map (\<lambda>p. map (\<lambda>a. (f, p, a))
                                          (filter (\<lambda>a. atividade_id f = a_id a) (atividades d)))
                              (filter (\<lambda>p. participante_id f = p_id p) (participantes d))))
              (frequencia d))"
proof -
  have inner: "concat (map (\<lambda>a. if atividade_id f = a_id a then [(f, p, a)] else []) as) =
      map (\<lambda>a. (f, p, a)) (filter (\<lambda>a. atividade_id f = a_id a) as)" for f p as
    by (induction as) auto
  show ?thesis
    by (simp add: frequencia_join_def inner concat_map_if_filter)
qed

lemma excluir_frequencia_remove1:
  assumes "wf_db d" and "f \<in> set (frequencia d)"
  shows "frequencia (excluir_frequencia (f_id f) d) = remove1 f (frequencia d)"
proof -
  from assms(1) have "distinct (map f_id (frequencia d))"
    by (simp add: wf_db_def strict_sorted_distinct)
  from filter_neq_key_remove1 [OF this assms(2)] show ?thesis
    by (simp add: excluir_frequencia_def)
qed

lemma frequencia_join_orphan:
  assumes "wf_db d" and "f \<in> set (frequencia d)"
    and "participante_id f \<notin> p_id ` set (participantes d) \<or>
         atividade_id f \<notin> a_id ` set (atividades d)"
  shows "frequencia_join (excluir_frequencia (f_id f) d) = frequencia_join d"
proof -
  let ?J = "\<lambda>f. concat (map (\<lambda>p. map (\<lambda>a. (f, p, a))
                                   (filter (\<lambda>a. atividade_id f = a_id a) (atividades d)))
                       (filter (\<lambda>p. participante_id f = p_id p) (participantes d)))"
  from assms(3) have "?J f = []"
  proof
    assume "participante_id f \<notin> p_id ` set (participantes d)"
    then have "filter (\<lambda>p. participante_id f = p_id p) (participantes d) = []"
      by (rule filter_key_empty)
    then show ?thesis by simp
  next
    assume "atividade_id f \<notin> a_id ` set (atividades d)"
    then have "filter (\<lambda>a. atividade_id f = a_id a) (atividades d) = []"
      by (rule filter_key_empty)
    then show ?thesis by simp
  qed
  then have "concat (map ?J (remove1 f (frequencia d))) = concat (map ?J (frequencia d))"
    by (rule concat_map_remove1_empty)
  moreover have "frequencia_join (excluir_frequencia (f_id f) d) =
      concat (map ?J (frequencia (excluir_frequencia (f_id f) d)))"
    by (simp add: frequencia_join_alt excluir_frequencia_def)
  ultimately show ?thesis
    by (simp add: excluir_frequencia_remove1 [OF assms(1,2)] frequencia_join_alt)
qed

lemma presenca_keys_orphan:
  assumes "wf_db d" and "f \<in> set (frequencia d)"
    and "atividade_id f \<notin> a_id ` set (atividades d)"
  shows "presenca_keys (excluir_frequencia (f_id f) d) = presenca_keys d"
proof -
  let ?J = "\<lambda>f. map (Pair f) (filter (\<lambda>a. atividade_id f = a_id a) (atividades d))"
  let ?Q = "\<lambda>f. presenca f = 1"
  from assms(3) have "filter (\<lambda>a. atividade_id f = a_id a) (atividades d) = []"
    by (rule filter_key_empty)
  then have "?J f = []" by simp
  then have "concat (map ?J (remove1 f (filter ?Q (frequencia d)))) =
      concat (map ?J (filter ?Q (frequencia d)))"
    by (rule concat_map_remove1_empty)
  moreover have "presenca_join (excluir_frequencia (f_id f) d) =
      concat (map ?J (filter ?Q (frequencia (excluir_frequencia (f_id f) d))))"
    by (simp add: presenca_join_alt excluir_frequencia_def)
  moreover have "filter ?Q (remove1 f (frequencia d)) = remove1 f (filter ?Q (frequencia d))"
    by (rule filter_remove1)
  ultimately have "presenca_join (excluir_frequencia (f_id f) d) = presenca_join d"
    by (simp add: excluir_frequencia_remove1 [OF assms(1,2)] presenca_join_alt)
  then show ?thesis
    by (simp add: presenca_keys_def)
qed

section \<open>Labels and the ids read back from them\<close>

lemma of_char_digit_char: "n < 10 \<Longrightarrow> of_char (digit_char n) = 48 + n"
  by (simp add: digit_char_def)

lemma is_digit_digit_char: "n < 10 \<Longrightarrow> is_digit (digit_char n)"
  by (simp add: is_digit_def of_char_digit_char)

lemma digit_val_digit_char: "n < 10 \<Longrightarrow> digit_val (digit_char n) = n"
  by (simp add: digit_val_def of_char_digit_char)

lemma str_nat_digits: "c \<in> set (str_nat n) \<Longrightarrow> is_digit c"
proof (induction n rule: str_nat.induct)
  case (1 n)
  show ?case
  proof (cases "n < 10")
    case True
    with "1.prems" have "c = digit_char n"
      by (subst (asm) str_nat.simps) simp
    with True show ?thesis by (simp add: is_digit_digit_char)
  next
    case False
    with "1.prems" have "c \<in> set (str_nat (n div 10)) \<or> c = digit_char (n mod 10)"
      by (subst (asm) str_nat.simps) auto
    then show ?thesis
    proof
      assume "c \<in> set (str_nat (n div 10))"
      with False "1.IH" show ?thesis by simp
    next
      assume "c = digit_char (n mod 10)"
      then show ?thesis by (simp add: is_digit_digit_char)
    qed
  qed
qed

lemma str_nat_nonempty: "str_nat n \<noteq> []"
  by (subst str_nat.simps) simp

lemma str_nat_value: "foldl (\<lambda>a c. 10 * a + digit_val c) 0 (str_nat n) = n"
proof (induction n rule: str_nat.induct)
  case (1 n)
  show ?case
  proof (cases "n < 10")
    case True
    then show ?thesis
      by (subst str_nat.simps) (simp add: digit_val_digit_char)
  next
    case False
    with "1.IH" have "foldl (\<lambda>a c. 10 * a + digit_val c) 0 (str_nat (n div 10)) = n div 10"
      by simp
    with False show ?thesis
      by (subst str_nat.simps) (simp add: digit_val_digit_char)
  qed
qed

lemma py_digits_all_digits:
  "\<forall>c\<in>set ds. is_digit c \<Longrightarrow> ds \<noteq> [] \<or> b \<Longrightarrow>
   py_digits acc b ds = Some (foldl (\<lambda>a c. 10 * a + digit_val c) acc ds)"
  by (induction ds arbitrary: acc b) auto

lemma py_digits_str_nat: "py_digits 0 False (str_nat n) = Some n"
  using py_digits_all_digits [of "str_nat n" False 0]
  by (simp add: str_nat_digits str_nat_nonempty str_nat_value)

lemma is_digit_cases:
  assumes "is_digit c"
  shows "c \<noteq> CHR '','' \<and> c \<noteq> CHR '':'' \<and> c \<noteq> CHR ''-'' \<and> c \<noteq> CHR ''+'' \<and> \<not> is_space c"
proof -
  from assms have range: "48 \<le> (of_char c :: nat)" "(of_char c :: nat) \<le> 57"
    by (simp_all add: is_digit_def)
  have "(of_char c :: nat) = 44" if "c = CHR '',''" using that by simp
  moreover have "(of_char c :: nat) = 58" if "c = CHR '':''" using that by simp
  moreover have "(of_char c :: nat) = 45" if "c = CHR ''-''" using that by simp
  moreover have "(of_char c :: nat) = 43" if "c = CHR ''+''" using that by simp
  moreover have "\<not> is_space c" using range by (simp add: is_space_def Let_def)
  ultimately show ?thesis using range by auto
qed

lemma minus_not_space: "\<not> is_space CHR ''-''"
  by (simp add: is_space_def)

lemma str_int_digits: "c \<in> set (str_int k) \<Longrightarrow> is_digit c \<or> c = CHR ''-''"
  by (auto simp: str_int_def dest: str_nat_digits split: if_splits)

lemma str_int_chars:
  assumes "c \<in> set (str_int k)"
  shows "c \<noteq> CHR '','' \<and> c \<noteq> CHR '':'' \<and> \<not> is_space c"
proof -
  from assms have "is_digit c \<or> c = CHR ''-''"
    by (rule str_int_digits)
  then show ?thesis
  proof
    assume "is_digit c"
    then show ?thesis by (simp add: is_digit_cases)
  next
    assume "c = CHR ''-''"
    then show ?thesis by (simp add: minus_not_space)
  qed
qed

lemma str_int_nonempty: "str_int k \<noteq> []"
  by (simp add: str_int_def str_nat_nonempty)

lemma dropWhile_none: "\<forall>c\<in>set xs. \<not> P c \<Longrightarrow> dropWhile P xs = xs"
  by (cases xs) auto

lemma py_strip_no_space:
  assumes "\<forall>c\<in>set s. \<not> is_space c"
  shows "py_strip s = s"
proof -
  from assms have "dropWhile is_space s = s"
    by (rule dropWhile_none)
  moreover from assms have "\<forall>c\<in>set (rev s). \<not> is_space c"
    by simp
  then have "dropWhile is_space (rev s) = rev s"
    by (rule dropWhile_none)
  ultimately show ?thesis by (simp add: py_strip_def)
qed

lemma py_strip_leading_space:
  assumes "\<forall>c\<in>set s. \<not> is_space c"
  shows "py_strip (CHR '' '' # s) = s"
proof -
  have "dropWhile is_space (CHR '' '' # s) = dropWhile is_space s"
    by (simp add: is_space_def)
  then have "py_strip (CHR '' '' # s) = py_strip s"
    by (simp add: py_strip_def)
  with assms show ?thesis by (simp add: py_strip_no_space)
qed

lemma py_int_str_int: "py_int (str_int k) = Inr k"
proof -
  have strip: "py_strip (str_int k) = str_int k"
    by (rule py_strip_no_space) (simp add: str_int_chars)
  show ?thesis
  proof (cases "k < 0")
    case True
    then show ?thesis
      by (simp add: py_int_def strip) (simp add: str_int_def py_digits_str_nat)
  next
    case False
    obtain c cs where cs: "str_nat (nat k) = c # cs"
      using str_nat_nonempty [of "nat k"] by (cases "str_nat (nat k)") auto
    then have "c \<in> set (str_nat (nat k))" by simp
    then have "is_digit c" by (rule str_nat_digits)
    then have "c \<noteq> CHR ''-''" and "c \<noteq> CHR ''+''"
      by (simp_all add: is_digit_cases)
    moreover have "py_digits 0 False (c # cs) = Some (nat k)"
      using py_digits_str_nat [of "nat k"] cs by simp
    ultimately show ?thesis
      using False cs by (simp add: py_int_def strip) (simp add: str_int_def)
  qed
qed

lemma py_split_no_sep: "sep \<notin> set s \<Longrightarrow> py_split sep s = [s]"
  by (induction s) auto

lemma py_split_first:
  "sep \<notin> set s \<Longrightarrow> py_split sep (s @ sep # rest) = s # py_split sep rest"
  by (induction s) auto

lemma id_of_selection_label:
  "id_of_selection (''ID: '' @ str_int k @ CHR '','' # rest) = Inr k"
proof -
  have nocomma: "CHR '','' \<notin> set (''ID: '' @ str_int k)"
    using str_int_chars [of "CHR '',''" k] by auto
  have "py_split CHR '','' ((''ID: '' @ str_int k) @ CHR '','' # rest) =
      (''ID: '' @ str_int k) # py_split CHR '','' rest"
    using nocomma by (rule py_split_first)
  then have first: "py_index (py_split CHR '','' (''ID: '' @ str_int k @ CHR '','' # rest)) 0 =
      Inr (''ID: '' @ str_int k)"
    by (simp add: py_index_def)
  have nocolon: "CHR '':'' \<notin> set (CHR '' '' # str_int k)"
    using str_int_chars [of "CHR '':''" k] by auto
  have "py_split CHR '':'' (''ID'' @ CHR '':'' # (CHR '' '' # str_int k)) =
      ''ID'' # py_split CHR '':'' (CHR '' '' # str_int k)"
    by (rule py_split_first) simp
  also have "py_split CHR '':'' (CHR '' '' # str_int k) = [CHR '' '' # str_int k]"
    using nocolon by (rule py_split_no_sep)
  finally have second: "py_index (py_split CHR '':'' (''ID: '' @ str_int k)) 1 =
      Inr (CHR '' '' # str_int k)"
    by (simp add: py_index_def)
  have "py_strip (CHR '' '' # str_int k) = str_int k"
    by (rule py_strip_leading_space) (simp add: str_int_chars)
  with first second show ?thesis
    by (simp add: id_of_selection_def py_int_str_int)
qed

lemma selectbox_member:
  "options \<noteq> [] \<Longrightarrow> \<exists>s. selectbox options i = Some s \<and> s \<in> set options"
  by (simp add: selectbox_def)

lemma selecionar_participante_ok:
  assumes "ps \<noteq> []"
  shows "\<exists>k. selecionar_participante i ps =
           Inr (Some k, [St_selectbox ''Selecione o Participante'' (map label_participante ps)]) \<and>
         k \<in> fst ` set ps"
proof -
  from assms obtain s where sel: "selectbox (map label_participante ps) i = Some s"
    and "s \<in> set (map label_participante ps)"
    using selectbox_member [of "map label_participante ps" i] by auto
  then obtain k n a where mem: "(k, n, a) \<in> set ps" and s: "s = label_participante (k, n, a)"
    by auto
  have "id_of_selection s = Inr k"
    unfolding s label_participante_def
    using id_of_selection_label [of k "'' Nome: '' @ n @ '', Idade: '' @ str_int a"] by simp
  with sel assms have "selecionar_participante i ps =
      Inr (Some k, [St_selectbox ''Selecione o Participante'' (map label_participante ps)])"
    by (simp add: selecionar_participante_def)
  moreover from mem have "k \<in> fst ` set ps" by force
  ultimately show ?thesis by blast
qed

lemma selecionar_atividade_ok:
  assumes "as \<noteq> []"
  shows "\<exists>k. selecionar_atividade i as =
           Inr (Some k, [St_selectbox ''Selecione a Atividade'' (map label_atividade as)]) \<and>
         k \<in> fst ` set as"
proof -
  from assms obtain s where sel: "selectbox (map label_atividade as) i = Some s"
    and "s \<in> set (map label_atividade as)"
    using selectbox_member [of "map label_atividade as" i] by auto
  then obtain k n where mem: "(k, n) \<in> set as" and s: "s = label_atividade (k, n)"
    by auto
  have "id_of_selection s = Inr k"
    unfolding s label_atividade_def
    using id_of_selection_label [of k "'' Atividade: '' @ n"] by simp
  with sel assms have "selecionar_atividade i as =
      Inr (Some k, [St_selectbox ''Selecione a Atividade'' (map label_atividade as)])"
    by (simp add: selecionar_atividade_def)
  moreover from mem have "k \<in> fst ` set as" by force
  ultimately show ?thesis by blast
qed

lemma selecionar_participante_empty:
  "selecionar_participante i [] = Inr (None, [St_warning ''Nenhum participante cadastrado!''])"
  by (simp add: selecionar_participante_def)

lemma selecionar_atividade_empty:
  "selecionar_atividade i [] = Inr (None, [St_warning ''Nenhuma atividade cadastrada!''])"
  by (simp add: selecionar_atividade_def)

lemma selecionar_participante_total:
  "\<exists>k ev. selecionar_participante i ps = Inr (k, ev) \<and> filter is_call ev = [] \<and>
     (ps = [] \<longrightarrow> k = None) \<and> (\<forall>j. k = Some j \<longrightarrow> j \<in> fst ` set ps)"
proof (cases "ps = []")
  case True
  then show ?thesis by (simp add: selecionar_participante_empty)
next
  case False
  from selecionar_participante_ok [OF this, of i] obtain j where
    "selecionar_participante i ps =
       Inr (Some j, [St_selectbox ''Selecione o Participante'' (map label_participante ps)])"
    and "j \<in> fst ` set ps" by blast
  with False show ?thesis by simp
qed

lemma selecionar_atividade_total:
  "\<exists>k ev. selecionar_atividade i as = Inr (k, ev) \<and> filter is_call ev = [] \<and>
     (as = [] \<longrightarrow> k = None) \<and> (\<forall>j. k = Some j \<longrightarrow> j \<in> fst ` set as)"
proof (cases "as = []")
  case True
  then show ?thesis by (simp add: selecionar_atividade_empty)
next
  case False
  from selecionar_atividade_ok [OF this, of i] obtain j where
    "selecionar_atividade i as =
       Inr (Some j, [St_selectbox ''Selecione a Atividade'' (map label_atividade as)])"
    and "j \<in> fst ` set as" by blast
  with False show ?thesis by simp
qed

section \<open>The example stores, row by row\<close>

lemma isoformat_dia: "isoformat dia = ''2024-02-28''"
  by code_simp

lemma cenario_rows:
  "cenario t1 t2 =
     \<lparr>participantes =
        [\<lparr>p_id = 1, nome = ''Ana'', idade = 10, genero = ''Feminino'',
          escolaridade = quinto_ano, data_inscricao = isoformat t1\<rparr>],
      atividades =
        [\<lparr>a_id = 1, atividade = ''Futebol'', descricao = ''Treino semanal'',
          data_atividade = isoformat t2\<rparr>],
      frequencia =
        [\<lparr>f_id = 1, participante_id = 1, atividade_id = 1, presenca = 1,
          data_frequencia = ''2024-03-01''\<rparr>],
      seq_participantes = 1, seq_atividades = 1, seq_frequencia = 1\<rparr>"
  by (simp add: cenario_def insert_frequencia_def add_atividade_def insert_participante_def
      create_tables_def empty_db_def next_rowid_def)

lemma wf_db_cenario: "wf_db (cenario t1 t2)"
  by (simp add: cenario_def wf_db_insert_frequencia wf_db_add_atividade
      wf_db_insert_participante wf_db_create_tables)

lemma cenario_dois_rows:
  "cenario_dois =
     \<lparr>participantes =
        [\<lparr>p_id = 1, nome = ''Ana'', idade = 10, genero = ''Feminino'',
          escolaridade = quinto_ano, data_inscricao = ''2024-02-28''\<rparr>,
         \<lparr>p_id = 2, nome = ''Bia'', idade = 11, genero = ''Feminino'',
          escolaridade = ''6 ano'', data_inscricao = ''2024-02-28''\<rparr>],
      atividades =
        [\<lparr>a_id = 1, atividade = ''Futebol'', descricao = ''Treino semanal'',
          data_atividade = ''2024-02-28''\<rparr>],
      frequencia =
        [\<lparr>f_id = 1, participante_id = 1, atividade_id = 1, presenca = 1,
          data_frequencia = ''2024-03-01''\<rparr>,
         \<lparr>f_id = 2, participante_id = 2, atividade_id = 1, presenca = 0,
          data_frequencia = ''2024-03-01''\<rparr>],
      seq_participantes = 2, seq_atividades = 1, seq_frequencia = 2\<rparr>"
  by (simp add: cenario_dois_def cenario_rows insert_frequencia_def insert_participante_def
      next_rowid_def isoformat_dia)

lemma wf_db_cenario_dois: "wf_db cenario_dois"
  by (simp add: cenario_dois_def wf_db_insert_frequencia wf_db_insert_participante
      wf_db_cenario)


lemma parse_iso_march_first:
  "parse_iso ''2024-03-01'' = Some \<lparr>year = 2024, month = 3, day = 1\<rparr>"
  by code_simp

lemma exemplo_reads_march_first:
  "\<exists>col. exemplo_to_datetime [''2024-03-01''] = Some col \<and>
     col 0 = Some \<lparr>year = 2024, month = 3, day = 1\<rparr>"
  by (simp add: exemplo_to_datetime_def parse_iso_march_first)

section \<open>Deleting a participant\<close>

text \<open>
  Claim C1. For the id of a stored participant, \<^verbatim>\<open>excluir_participante\<close> removes
  that participant row and every attendance row that refers to the id; the attendance
  rows that refer to another id, the other participant rows and all activity rows stay
  as they were, in their order.
\<close>

theorem excluir_participante_cascade:
  assumes "wf_db d" and "p \<in> set (participantes d)"
  shows "participantes (excluir_participante (p_id p) d) = remove1 p (participantes d) \<and>
         p \<notin> set (participantes (excluir_participante (p_id p) d)) \<and>
         filter (\<lambda>f. participante_id f = p_id p)
           (frequencia (excluir_participante (p_id p) d)) = [] \<and>
         filter (\<lambda>f. participante_id f \<noteq> p_id p)
           (frequencia (excluir_participante (p_id p) d)) =
         filter (\<lambda>f. participante_id f \<noteq> p_id p) (frequencia d) \<and>
         atividades (excluir_participante (p_id p) d) = atividades d"
proof -
  from assms(1) have dist: "distinct (map p_id (participantes d))"
    by (simp add: wf_db_def strict_sorted_distinct)
  then have "distinct (participantes d)"
    by (simp add: distinct_map)
  then have gone: "p \<notin> set (remove1 p (participantes d))"
    by simp
  have rows: "participantes (excluir_participante (p_id p) d) = remove1 p (participantes d)"
    using filter_neq_key_remove1 [OF dist assms(2)]
    by (simp add: excluir_participante_def Let_def)
  have freq: "frequencia (excluir_participante (p_id p) d) =
      filter (\<lambda>f. participante_id f \<noteq> p_id p) (frequencia d)"
    by (simp add: excluir_participante_def Let_def)
  have acts: "atividades (excluir_participante (p_id p) d) = atividades d"
    by (simp add: excluir_participante_def Let_def)
  show ?thesis
    using gone by (simp add: rows freq acts)
qed

text \<open>
  An instance: deleting Ana from the store with two participants removes her row and
  her attendance and keeps Bia's.
\<close>

theorem excluir_participante_cascade_witness:
  "wf_db cenario_dois \<and>
   \<lparr>p_id = 1, nome = ''Ana'', idade = 10, genero = ''Feminino'',
     escolaridade = quinto_ano, data_inscricao = ''2024-02-28''\<rparr>
     \<in> set (participantes cenario_dois) \<and>
   participantes (excluir_participante 1 cenario_dois) =
     [\<lparr>p_id = 2, nome = ''Bia'', idade = 11, genero = ''Feminino'',
       escolaridade = ''6 ano'', data_inscricao = ''2024-02-28''\<rparr>] \<and>
   frequencia (excluir_participante 1 cenario_dois) =
     [\<lparr>f_id = 2, participante_id = 2, atividade_id = 1, presenca = 0,
       data_frequencia = ''2024-03-01''\<rparr>] \<and>
   atividades (excluir_participante 1 cenario_dois) = atividades cenario_dois"
  using excluir_participante_cascade [of cenario_dois
      "\<lparr>p_id = 1, nome = ''Ana'', idade = 10, genero = ''Feminino'',
        escolaridade = quinto_ano, data_inscricao = ''2024-02-28''\<rparr>"]
    wf_db_cenario_dois
  by (simp add: cenario_dois_rows excluir_participante_def)

section \<open>Attendance and the counts of the report\<close>




section \<open>Registering a participant\<close>




section \<open>Listing the attendance\<close>



section \<open>The report on a store without presences\<close>

text \<open>
  Claim C5. On a store in which no attendance row has \<^verbatim>\<open>presenca\<close> 1, the
  aggregator returns the empty table; it does not raise, whatever the date conversion
  would do with a column.
\<close>

theorem obter_dados_no_presence:
  assumes "\<forall>f\<in>set (frequencia d). presenca f \<noteq> 1"
  shows "obter_dados_participantes_por_atividade to_datetime d = Inr []"
proof -
  from assms have "presenca_join d = []"
    by (auto simp: presenca_join_def)
  then have "obter_dados_query d = []"
    by (simp add: obter_dados_query_def presenca_keys_def)
  then show ?thesis
    by (simp add: obter_dados_participantes_por_atividade_def pd_to_datetime_def)
qed

text \<open>
  An instance: the store that holds only Bia's absence, with a conversion that raises on
  every column.
\<close>

theorem obter_dados_no_presence_witness:
  "frequencia (excluir_frequencia 1 cenario_dois) =
     [\<lparr>f_id = 2, participante_id = 2, atividade_id = 1, presenca = 0,
       data_frequencia = ''2024-03-01''\<rparr>] \<and>
   obter_dados_participantes_por_atividade (\<lambda>s. None) (excluir_frequencia 1 cenario_dois) =
     Inr []"
  using obter_dados_no_presence [of "excluir_frequencia 1 cenario_dois" "\<lambda>s. None"]
  by (simp add: cenario_dois_rows excluir_frequencia_def)

section \<open>Recording attendance\<close>




section \<open>The scenario\<close>

text \<open>
  Claim C7. Starting from the empty store of a new file, the three calls that register
  the participant Ana (10, Feminino, 5th year), the activity Futebol (Treino semanal)
  and the attendance (1, 1, present, 2024-03-01) succeed, on whatever days the two
  registrations are made. Afterwards the attendance listing is the single row
  (1, Ana, Futebol, 1, 2024-03-01) and the aggregating statement returns the single row
  (Futebol, 2024-03-01, 1); the data frame holds that row with the date that the
  conversion reads from the column of the one text 2024-03-01.
\<close>

theorem cenario_report:
  "cenario_run t1 t2 = Inr (cenario t1 t2) \<and>
   visualizar_frequencia (cenario t1 t2) = [(1, ''Ana'', ''Futebol'', 1, ''2024-03-01'')] \<and>
   obter_dados_query (cenario t1 t2) = [(''Futebol'', ''2024-03-01'', 1)] \<and>
   (to_datetime [''2024-03-01''] = Some col \<longrightarrow>
      obter_dados_participantes_por_atividade to_datetime (cenario t1 t2) =
        Inr [(''Futebol'', col 0, 1)])"
proof -
  have run: "cenario_run t1 t2 = Inr (cenario t1 t2)"
    by (simp add: cenario_run_def cenario_def add_participante_def registrar_frequencia_def
        int64_def)
  have q: "obter_dados_query (cenario t1 t2) = [(''Futebol'', ''2024-03-01'', 1)]"
    by (simp add: cenario_rows obter_dados_query_def presenca_keys_def presenca_join_def)
  have l: "visualizar_frequencia (cenario t1 t2) =
      [(1, ''Ana'', ''Futebol'', 1, ''2024-03-01'')]"
    by (simp add: cenario_rows visualizar_frequencia_def frequencia_join_def)
  show ?thesis
    by (simp add: run q l obter_dados_participantes_por_atividade_def pd_to_datetime_def)
qed

theorem cenario_report_witness:
  "(\<exists>col. exemplo_to_datetime [''2024-03-01''] = Some col \<and>
      col 0 = Some \<lparr>year = 2024, month = 3, day = 1\<rparr>) \<and>
   cenario_run dia dia = Inr (cenario dia dia) \<and>
   obter_dados_participantes_por_atividade exemplo_to_datetime (cenario dia dia) =
     Inr [(''Futebol'', Some \<lparr>year = 2024, month = 3, day = 1\<rparr>, 1)]"
proof -
  from exemplo_reads_march_first
  obtain col where reads: "exemplo_to_datetime [''2024-03-01''] = Some col"
    and first: "col 0 = Some \<lparr>year = 2024, month = 3, day = 1\<rparr>"
    by blast
  note th = cenario_report [of dia dia exemplo_to_datetime col]
  from th reads first
  have "obter_dados_participantes_por_atividade exemplo_to_datetime (cenario dia dia) =
     Inr [(''Futebol'', Some \<lparr>year = 2024, month = 3, day = 1\<rparr>, 1)]"
    by simp
  moreover from th have "cenario_run dia dia = Inr (cenario dia dia)"
    by blast
  ultimately show ?thesis
    using reads first by blast
qed

section \<open>Deleting an activity\<close>

text \<open>
  Claim C8. For the id of a stored activity, \<^verbatim>\<open>excluir_atividade\<close> removes every
  attendance row that refers to the id and that activity row, and leaves the other
  attendance rows, the other activities and the participants as they were. In
  particular, after the scenario of claim C7, deleting activity 1 leaves the listing of
  the activities and the listing of the attendance empty.
\<close>

theorem excluir_atividade_cascade:
  "(wf_db d \<and> a \<in> set (atividades d) \<longrightarrow>
      atividades (excluir_atividade (a_id a) d) = remove1 a (atividades d) \<and>
      a \<notin> set (atividades (excluir_atividade (a_id a) d)) \<and>
      frequencia (excluir_atividade (a_id a) d) =
        filter (\<lambda>f. atividade_id f \<noteq> a_id a) (frequencia d) \<and>
      participantes (excluir_atividade (a_id a) d) = participantes d) \<and>
   visualizar_atividades (excluir_atividade 1 (cenario t1 t2)) = [] \<and>
   visualizar_frequencia (excluir_atividade 1 (cenario t1 t2)) = []"
proof -
  have general: "atividades (excluir_atividade (a_id a) d) = remove1 a (atividades d) \<and>
      a \<notin> set (atividades (excluir_atividade (a_id a) d)) \<and>
      frequencia (excluir_atividade (a_id a) d) =
        filter (\<lambda>f. atividade_id f \<noteq> a_id a) (frequencia d) \<and>
      participantes (excluir_atividade (a_id a) d) = participantes d"
    if wf: "wf_db d" and stored: "a \<in> set (atividades d)"
  proof -
    from wf have dist: "distinct (map a_id (atividades d))"
      by (simp add: wf_db_def strict_sorted_distinct)
    then have "distinct (atividades d)"
      by (simp add: distinct_map)
    then have gone: "a \<notin> set (remove1 a (atividades d))"
      by simp
    have rows: "atividades (excluir_atividade (a_id a) d) = remove1 a (atividades d)"
      using filter_neq_key_remove1 [OF dist stored]
      by (simp add: excluir_atividade_def Let_def)
    show ?thesis
      using gone by (simp add: rows) (simp add: excluir_atividade_def Let_def)
  qed
  have acts: "visualizar_atividades (excluir_atividade 1 (cenario t1 t2)) = []"
    by (simp add: cenario_rows excluir_atividade_def visualizar_atividades_def)
  have freq: "visualizar_frequencia (excluir_atividade 1 (cenario t1 t2)) = []"
    by (simp add: cenario_rows excluir_atividade_def visualizar_frequencia_def
        frequencia_join_def)
  from general acts freq show ?thesis
    by blast
qed

text \<open>
  An instance of the general part: on the store with two attendance rows for
  Futebol, deleting Futebol removes both rows and keeps the two participants.
\<close>

theorem excluir_atividade_cascade_witness:
  "wf_db cenario_dois \<and>
   \<lparr>a_id = 1, atividade = ''Futebol'', descricao = ''Treino semanal'',
     data_atividade = ''2024-02-28''\<rparr> \<in> set (atividades cenario_dois) \<and>
   atividades (excluir_atividade 1 cenario_dois) = [] \<and>
   frequencia (excluir_atividade 1 cenario_dois) = [] \<and>
   participantes (excluir_atividade 1 cenario_dois) = participantes cenario_dois"
  using excluir_atividade_cascade [of cenario_dois
      "\<lparr>a_id = 1, atividade = ''Futebol'', descricao = ''Treino semanal'',
        data_atividade = ''2024-02-28''\<rparr>"]
    wf_db_cenario_dois
  by (simp add: cenario_dois_rows)

section \<open>The attendance screen without participants or activities\<close>

text \<open>
  Claim C9. When the store has no participant or no activity and the button
  \<^verbatim>\<open>Registrar\<close> is pressed, the run of the attendance screen ends normally, leaves
  the store as it is, makes no call of \<^verbatim>\<open>registrar_frequencia\<close>, and shows the
  error message.
\<close>

theorem tela_refuses_without_rows:
  assumes "participantes d = [] \<or> atividades d = []" and "w_registrar w"
  shows "\<exists>evs. tela_registrar_frequencia w d = Inr (d, evs) \<and>
           filter is_call evs = [] \<and> St_error msg_erro \<in> set evs"
proof -
  obtain k1 ev1 where p: "selecionar_participante (w_participante w)
        (get_participantes_dropdown d) = Inr (k1, ev1)"
    and c1: "filter is_call ev1 = []"
    and n1: "get_participantes_dropdown d = [] \<longrightarrow> k1 = None"
    using selecionar_participante_total by blast
  obtain k2 ev2 where a: "selecionar_atividade (w_atividade w)
        (get_atividades_dropdown d) = Inr (k2, ev2)"
    and c2: "filter is_call ev2 = []"
    and n2: "get_atividades_dropdown d = [] \<longrightarrow> k2 = None"
    using selecionar_atividade_total by blast
  from assms(1) n1 n2 have "k1 = None \<or> k2 = None"
    by (auto simp: get_participantes_dropdown_def get_atividades_dropdown_def)
  then have "tela_registrar_frequencia w d =
      Inr (d, St_subheader titulo_registro # ev1 @ ev2 @
        [St_selectbox label_presenca [''Presente'', ''Ausente''],
         St_date_input label_data, St_button ''Registrar''] @ [St_error msg_erro])"
    using assms(2) p a
    by (auto simp: tela_registrar_frequencia_def Let_def split: option.splits)
  with c1 c2 show ?thesis by simp
qed

text \<open>
  An instance: one participant is registered and no activity. The participant is
  offered and read back from the label, the warning for the activities is shown, and
  pressing the button gives the error message; the store is returned as it was.
\<close>

theorem tela_refuses_without_rows_witness:
  "atividades so_ana = [] \<and> w_registrar w_exemplo \<and>
   tela_registrar_frequencia w_exemplo so_ana =
     Inr (so_ana,
       [St_subheader titulo_registro,
        St_selectbox ''Selecione o Participante'' [''ID: 1, Nome: Ana, Idade: 10''],
        St_warning ''Nenhuma atividade cadastrada!'',
        St_selectbox label_presenca [''Presente'', ''Ausente''],
        St_date_input label_data, St_button ''Registrar'', St_error msg_erro])"
proof -
  have none: "atividades so_ana = []"
    by (simp add: so_ana_def insert_participante_def create_tables_def empty_db_def Let_def)
  have pressed: "w_registrar w_exemplo"
    by (simp add: w_exemplo_def)
  have run: "tela_registrar_frequencia w_exemplo so_ana =
     Inr (so_ana,
       [St_subheader titulo_registro,
        St_selectbox ''Selecione o Participante'' [''ID: 1, Nome: Ana, Idade: 10''],
        St_warning ''Nenhuma atividade cadastrada!'',
        St_selectbox label_presenca [''Presente'', ''Ausente''],
        St_date_input label_data, St_button ''Registrar'', St_error msg_erro])"
    by code_simp
  from tela_refuses_without_rows [of so_ana w_exemplo] none pressed
  have "\<exists>evs. tela_registrar_frequencia w_exemplo so_ana = Inr (so_ana, evs) \<and>
      filter is_call evs = [] \<and> St_error msg_erro \<in> set evs"
    by simp
  with none pressed run show ?thesis
    by blast
qed

text \<open>
  With a participant and an activity in the store the same screen does call the
  persistence layer. On a store of 64-bit ids no run raises, and every call that a run
  makes carries the id of a stored participant, the id of a stored activity and the
  flag 0 or 1.
\<close>

lemma tela_registers_example:
  "tela_registrar_frequencia w_exemplo (cenario dia dia) =
     Inr (insert_frequencia 1 1 1 ''2024-03-01'' (cenario dia dia),
       [St_subheader titulo_registro,
        St_selectbox ''Selecione o Participante'' [''ID: 1, Nome: Ana, Idade: 10''],
        St_selectbox ''Selecione a Atividade'' [''ID: 1, Atividade: Futebol''],
        St_selectbox label_presenca [''Presente'', ''Ausente''],
        St_date_input label_data, St_button ''Registrar'',
        Call_registrar_frequencia 1 1 1 ''2024-03-01'', St_success msg_sucesso])"
  by code_simp

lemma tela_never_raises:
  assumes "\<forall>p\<in>set (participantes d). int64 (p_id p)"
    and "\<forall>a\<in>set (atividades d). int64 (a_id a)"
  shows "\<exists>d' evs. tela_registrar_frequencia w d = Inr (d', evs)"
proof -
  have ids1: "fst ` set (get_participantes_dropdown d) = p_id ` set (participantes d)"
    by (force simp: get_participantes_dropdown_def)
  have ids2: "fst ` set (get_atividades_dropdown d) = a_id ` set (atividades d)"
    by (force simp: get_atividades_dropdown_def)
  obtain k1 ev1 where s1: "selecionar_participante (w_participante w)
        (get_participantes_dropdown d) = Inr (k1, ev1)"
    and i1: "\<forall>j. k1 = Some j \<longrightarrow> j \<in> fst ` set (get_participantes_dropdown d)"
    using selecionar_participante_total by blast
  obtain k2 ev2 where s2: "selecionar_atividade (w_atividade w)
        (get_atividades_dropdown d) = Inr (k2, ev2)"
    and i2: "\<forall>j. k2 = Some j \<longrightarrow> j \<in> fst ` set (get_atividades_dropdown d)"
    using selecionar_atividade_total by blast
  from i1 assms(1) have r1: "\<forall>j. k1 = Some j \<longrightarrow> int64 j"
    unfolding ids1 by auto
  from i2 assms(2) have r2: "\<forall>j. k2 = Some j \<longrightarrow> int64 j"
    unfolding ids2 by auto
  from s1 s2 r1 r2 show ?thesis
    by (auto simp: tela_registrar_frequencia_def Let_def registrar_frequencia_def int64_flags
        split: option.splits)
qed

lemma tela_calls_stored_ids:
  assumes "tela_registrar_frequencia w d = Inr (d', evs)"
    and "Call_registrar_frequencia p a pr dt \<in> set evs"
  shows "p \<in> p_id ` set (participantes d) \<and> a \<in> a_id ` set (atividades d) \<and>
         (pr = 0 \<or> pr = 1) \<and> registrar_frequencia p a pr dt d = Inr d'"
proof -
  obtain k1 ev1 where s1: "selecionar_participante (w_participante w)
        (get_participantes_dropdown d) = Inr (k1, ev1)"
    and c1: "filter is_call ev1 = []"
    and i1: "\<forall>j. k1 = Some j \<longrightarrow> j \<in> fst ` set (get_participantes_dropdown d)"
    using selecionar_participante_total by blast
  obtain k2 ev2 where s2: "selecionar_atividade (w_atividade w)
        (get_atividades_dropdown d) = Inr (k2, ev2)"
    and c2: "filter is_call ev2 = []"
    and i2: "\<forall>j. k2 = Some j \<longrightarrow> j \<in> fst ` set (get_atividades_dropdown d)"
    using selecionar_atividade_total by blast
  have n1: "Call_registrar_frequencia p a pr dt \<notin> set ev1"
  proof
    assume "Call_registrar_frequencia p a pr dt \<in> set ev1"
    then have "Call_registrar_frequencia p a pr dt \<in> set (filter is_call ev1)" by simp
    with c1 show False by simp
  qed
  have n2: "Call_registrar_frequencia p a pr dt \<notin> set ev2"
  proof
    assume "Call_registrar_frequencia p a pr dt \<in> set ev2"
    then have "Call_registrar_frequencia p a pr dt \<in> set (filter is_call ev2)" by simp
    with c2 show False by simp
  qed
  have ids1: "fst ` set (get_participantes_dropdown d) = p_id ` set (participantes d)"
    by (force simp: get_participantes_dropdown_def)
  have ids2: "fst ` set (get_atividades_dropdown d) = a_id ` set (atividades d)"
    by (force simp: get_atividades_dropdown_def)
  from assms s1 s2 n1 n2 i1 i2 show ?thesis
    unfolding ids1 ids2
    by (auto simp: tela_registrar_frequencia_def Let_def
        split: option.splits if_splits sum.splits)
qed

section \<open>Attendance rows without a participant or an activity\<close>

text \<open>
  Claim C10, as amended. In a store with primary keys, an attendance row whose
  participant id or activity id is the id of no stored row contributes nothing to the
  attendance listing: the listing is the same without the row. A row whose activity id
  is the id of no stored activity contributes nothing to the aggregator. The aggregator
  does not read the participants at all: its result is the same for any content of the
  participant table, so a row of a stored activity counts whether or not its participant
  id is the id of a stored participant.
\<close>

theorem unmatched_rows_omitted:
  assumes "wf_db d" and "f \<in> set (frequencia d)"
  shows "(participante_id f \<notin> p_id ` set (participantes d) \<or>
          atividade_id f \<notin> a_id ` set (atividades d) \<longrightarrow>
            visualizar_frequencia (excluir_frequencia (f_id f) d) = visualizar_frequencia d) \<and>
         (atividade_id f \<notin> a_id ` set (atividades d) \<longrightarrow>
            obter_dados_participantes_por_atividade to_datetime (excluir_frequencia (f_id f) d) =
            obter_dados_participantes_por_atividade to_datetime d) \<and>
         obter_dados_participantes_por_atividade to_datetime (d\<lparr>participantes := ps\<rparr>) =
         obter_dados_participantes_por_atividade to_datetime d"
proof -
  have "visualizar_frequencia (excluir_frequencia (f_id f) d) = visualizar_frequencia d"
    if "participante_id f \<notin> p_id ` set (participantes d) \<or>
        atividade_id f \<notin> a_id ` set (atividades d)"
    using frequencia_join_orphan [OF assms that] by (simp add: visualizar_frequencia_def)
  moreover have "obter_dados_participantes_por_atividade to_datetime (excluir_frequencia (f_id f) d) =
      obter_dados_participantes_por_atividade to_datetime d"
    if "atividade_id f \<notin> a_id ` set (atividades d)"
    using presenca_keys_orphan [OF assms that]
    by (intro obter_dados_frame_cong obter_dados_query_cong)
  moreover have "obter_dados_participantes_por_atividade to_datetime (d\<lparr>participantes := ps\<rparr>) =
      obter_dados_participantes_por_atividade to_datetime d"
    by (intro obter_dados_frame_cong obter_dados_query_cong) (rule presenca_keys_participantes)
  ultimately show ?thesis
    by blast
qed

text \<open>
  An instance: a presence at the activity 9, which is not stored, is in neither output.
\<close>

theorem unmatched_rows_omitted_witness:
  "wf_db (insert_frequencia 1 9 1 ''2024-03-02'' (cenario dia dia)) \<and>
   \<lparr>f_id = 2, participante_id = 1, atividade_id = 9, presenca = 1,
     data_frequencia = ''2024-03-02''\<rparr>
     \<in> set (frequencia (insert_frequencia 1 9 1 ''2024-03-02'' (cenario dia dia))) \<and>
   9 \<notin> a_id ` set (atividades (insert_frequencia 1 9 1 ''2024-03-02'' (cenario dia dia))) \<and>
   visualizar_frequencia (insert_frequencia 1 9 1 ''2024-03-02'' (cenario dia dia)) =
     [(1, ''Ana'', ''Futebol'', 1, ''2024-03-01'')] \<and>
   obter_dados_participantes_por_atividade exemplo_to_datetime
     (insert_frequencia 1 9 1 ''2024-03-02'' (cenario dia dia)) =
     Inr [(''Futebol'', Some \<lparr>year = 2024, month = 3, day = 1\<rparr>, 1)]"
proof -
  let ?d = "insert_frequencia 1 9 1 ''2024-03-02'' (cenario dia dia)"
  let ?f = "\<lparr>f_id = 2, participante_id = 1, atividade_id = 9, presenca = 1,
     data_frequencia = ''2024-03-02''\<rparr>"
  have wf: "wf_db ?d"
    by (simp add: wf_db_insert_frequencia wf_db_cenario)
  have rows: "frequencia ?d =
      [\<lparr>f_id = 1, participante_id = 1, atividade_id = 1, presenca = 1,
        data_frequencia = ''2024-03-01''\<rparr>, ?f]"
    and acts: "atividades ?d = atividades (cenario dia dia)"
    and parts: "participantes ?d = participantes (cenario dia dia)"
    by (simp_all add: insert_frequencia_def cenario_rows next_rowid_def)
  have stored: "?f \<in> set (frequencia ?d)"
    by (simp add: rows)
  have without: "excluir_frequencia 2 ?d = (cenario dia dia)\<lparr>seq_frequencia := 2\<rparr>"
    by (simp add: excluir_frequencia_def insert_frequencia_def cenario_rows next_rowid_def)
  have listing: "visualizar_frequencia ((cenario dia dia)\<lparr>seq_frequencia := 2\<rparr>) =
      [(1, ''Ana'', ''Futebol'', 1, ''2024-03-01'')]"
    by (simp add: cenario_rows visualizar_frequencia_def frequencia_join_def)
  have "obter_dados_query ((cenario dia dia)\<lparr>seq_frequencia := 2\<rparr>) =
      [(''Futebol'', ''2024-03-01'', 1)]"
    by (simp add: cenario_rows obter_dados_query_def presenca_keys_def presenca_join_def)
  then have frame: "obter_dados_participantes_por_atividade exemplo_to_datetime
      ((cenario dia dia)\<lparr>seq_frequencia := 2\<rparr>) =
      Inr [(''Futebol'', Some \<lparr>year = 2024, month = 3, day = 1\<rparr>, 1)]"
    by code_simp
  have unmatched: "atividade_id ?f \<notin> a_id ` set (atividades ?d)"
    unfolding acts by (simp add: cenario_rows)
  note th = unmatched_rows_omitted [OF wf stored, of exemplo_to_datetime]
  from th unmatched
  have "visualizar_frequencia (excluir_frequencia (f_id ?f) ?d) = visualizar_frequencia ?d"
    by blast
  then have l: "visualizar_frequencia ?d = [(1, ''Ana'', ''Futebol'', 1, ''2024-03-01'')]"
    by (simp add: without listing)
  from th unmatched
  have "obter_dados_participantes_por_atividade exemplo_to_datetime
      (excluir_frequencia (f_id ?f) ?d) =
    obter_dados_participantes_por_atividade exemplo_to_datetime ?d"
    by blast
  then have r: "obter_dados_participantes_por_atividade exemplo_to_datetime ?d =
      Inr [(''Futebol'', Some \<lparr>year = 2024, month = 3, day = 1\<rparr>, 1)]"
    by (simp add: without frame)
  from unmatched have "9 \<notin> a_id ` set (atividades ?d)"
    by simp
  with wf stored l r show ?thesis
    by blast
qed

text \<open>
  The claim as it is written, that both outputs omit a row whose participant id is the
  id of no stored participant, fails for the aggregator: the second row below names the
  participant 7, which is not stored, and the aggregator reports its group; without the
  row the group is gone.
\<close>

theorem unmatched_participant_counted:
  "registrar_frequencia 7 1 1 ''2024-03-02'' (cenario dia dia) =
     Inr (insert_frequencia 7 1 1 ''2024-03-02'' (cenario dia dia)) \<and>
   7 \<notin> p_id ` set (participantes (insert_frequencia 7 1 1 ''2024-03-02'' (cenario dia dia))) \<and>
   frequencia (insert_frequencia 7 1 1 ''2024-03-02'' (cenario dia dia)) =
     [\<lparr>f_id = 1, participante_id = 1, atividade_id = 1, presenca = 1,
       data_frequencia = ''2024-03-01''\<rparr>,
      \<lparr>f_id = 2, participante_id = 7, atividade_id = 1, presenca = 1,
       data_frequencia = ''2024-03-02''\<rparr>] \<and>
   obter_dados_participantes_por_atividade exemplo_to_datetime
     (insert_frequencia 7 1 1 ''2024-03-02'' (cenario dia dia)) =
     Inr [(''Futebol'', Some \<lparr>year = 2024, month = 3, day = 1\<rparr>, 1),
          (''Futebol'', Some \<lparr>year = 2024, month = 3, day = 2\<rparr>, 1)] \<and>
   obter_dados_participantes_por_atividade exemplo_to_datetime
     (excluir_frequencia 2 (insert_frequencia 7 1 1 ''2024-03-02'' (cenario dia dia))) =
     Inr [(''Futebol'', Some \<lparr>year = 2024, month = 3, day = 1\<rparr>, 1)]"
proof -
  have run: "registrar_frequencia 7 1 1 ''2024-03-02'' (cenario dia dia) =
     Inr (insert_frequencia 7 1 1 ''2024-03-02'' (cenario dia dia))"
    by (simp add: registrar_frequencia_def int64_def)
  have parts: "7 \<notin> p_id ` set (participantes
      (insert_frequencia 7 1 1 ''2024-03-02'' (cenario dia dia)))"
    by (simp add: insert_frequencia_def cenario_rows Let_def)
  have rows: "frequencia (insert_frequencia 7 1 1 ''2024-03-02'' (cenario dia dia)) =
     [\<lparr>f_id = 1, participante_id = 1, atividade_id = 1, presenca = 1,
       data_frequencia = ''2024-03-01''\<rparr>,
      \<lparr>f_id = 2, participante_id = 7, atividade_id = 1, presenca = 1,
       data_frequencia = ''2024-03-02''\<rparr>]"
    by (simp add: insert_frequencia_def cenario_rows next_rowid_def)
  have q: "obter_dados_query (insert_frequencia 7 1 1 ''2024-03-02'' (cenario dia dia)) =
      [(''Futebol'', ''2024-03-01'', 1), (''Futebol'', ''2024-03-02'', 1)]"
    by code_simp
  have q': "obter_dados_query
      (excluir_frequencia 2 (insert_frequencia 7 1 1 ''2024-03-02'' (cenario dia dia))) =
      [(''Futebol'', ''2024-03-01'', 1)]"
    by code_simp
  have r: "obter_dados_participantes_por_atividade exemplo_to_datetime
     (insert_frequencia 7 1 1 ''2024-03-02'' (cenario dia dia)) =
     Inr [(''Futebol'', Some \<lparr>year = 2024, month = 3, day = 1\<rparr>, 1),
          (''Futebol'', Some \<lparr>year = 2024, month = 3, day = 2\<rparr>, 1)]"
    by code_simp
  have r': "obter_dados_participantes_por_atividade exemplo_to_datetime
     (excluir_frequencia 2 (insert_frequencia 7 1 1 ''2024-03-02'' (cenario dia dia))) =
     Inr [(''Futebol'', Some \<lparr>year = 2024, month = 3, day = 1\<rparr>, 1)]"
    by code_simp
  from run parts rows r r' show ?thesis
    by blast
qed

end
